theory Spec2Isabelle
  imports Main "HOL-Library.Sublist"
begin

section \<open>The environment loader of config.py\<close>

text \<open>
  The module reads variables from the process environment, applies defaults, coerces
  some of them to booleans or paths and exposes the results as the attributes of the
  class \<open>EnvVariable\<close>. Every function below follows the Python function of the same
  name; a leading underscore of a Python name is dropped, since an Isabelle name starts
  with a letter.
\<close>

subsection \<open>Values, errors and the environment\<close>

text \<open>
  A Python \<open>str\<close> is a \<open>string\<close>, an \<open>Optional[str]\<close> a \<open>string option\<close>
  with \<open>None\<close> for Python's \<open>None\<close>. The process environment \<open>os.environ\<close> is a
  map from names to values, and \<open>os.getenv\<close> is the lookup in it.
\<close>

type_synonym environ = "string \<rightharpoonup> string"

definition getenv :: "environ \<Rightarrow> string \<Rightarrow> string option" where
  "getenv env var_name = env var_name"

text \<open>
  An exception is a value: its class, its message and, for \<open>raise ... from e\<close>, its
  cause. \<open>AttributeError\<close> and \<open>TypeError\<close> are what Python raises when \<open>None\<close>
  reaches \<open>.lower()\<close> or \<open>pathlib.Path\<close>.
\<close>

datatype error =
    KeyError string
  | ValueError string "error option"
  | AttributeError string
  | TypeError string

definition and_then :: "error + 'a \<Rightarrow> ('a \<Rightarrow> error + 'b) \<Rightarrow> error + 'b" where
  "and_then m f = (case m of Inl e \<Rightarrow> Inl e | Inr x \<Rightarrow> f x)"

subsection \<open>cast\_str\_to\_bool\<close>

text \<open>
  \<open>str.lower()\<close>: each of the letters \<open>A\<close> to \<open>Z\<close> becomes its lowercase letter,
  every other character is kept. No character outside ASCII has one of the letters of
  the six literals as its lowercase, so the strings accepted are the same as under
  Python's Unicode lowercasing.
\<close>

definition lower_char :: "char \<Rightarrow> char" where
  "lower_char c =
     (case map_of (zip ''ABCDEFGHIJKLMNOPQRSTUVWXYZ'' ''abcdefghijklmnopqrstuvwxyz'') c of
        Some l \<Rightarrow> l
      | None \<Rightarrow> c)"

definition lower :: "string \<Rightarrow> string" where
  "lower s = map lower_char s"

definition truth_values :: "string set" where
  "truth_values = {''true'', ''t'', ''1''}"

definition false_values :: "string set" where
  "false_values = {''false'', ''f'', ''0''}"

text \<open>
  The message of the \<open>ValueError\<close> prints the two sets. Python fixes no iteration order
  for a set of strings; the text below prints them in the order of the source, and no
  property proved here depends on that part of the message.
\<close>

definition cast_error_message :: "string \<Rightarrow> string" where
  "cast_error_message s =
     ''String '' @ s @ '' being casted to bool but is not in ''
       @ ''{'true', 't', '1'}'' @ '' or '' @ ''{'false', 'f', '0'}''"

definition cast_str_to_bool :: "string \<Rightarrow> error + bool" where
  "cast_str_to_bool s =
     (if lower s \<in> truth_values then Inr True
      else if lower s \<in> false_values then Inr False
      else Inl (ValueError (cast_error_message s) None))"

subsection \<open>\_get\_env\_variable\<close>

definition missing_message :: "string \<Rightarrow> string" where
  "missing_message var_name =
     ''Environment variable '' @ var_name @ '' not set, and allow_empty is False''"

definition get_env_variable ::
    "environ \<Rightarrow> string \<Rightarrow> string option \<Rightarrow> bool \<Rightarrow> error + string option" where
  "get_env_variable env var_name dflt allow_empty =
     (let env_var = getenv env var_name;
          env_var = (if dflt \<noteq> None \<and> env_var \<in> {None, Some []}
                     then dflt else env_var)
      in if \<not> allow_empty \<and> env_var \<in> {None, Some []}
         then Inl (KeyError (missing_message var_name))
         else Inr env_var)"

subsection \<open>\_get\_bool\_env\_variable\<close>

text \<open>
  The parameter \<open>default\<close> of the source is \<open>dflt\<close> here (\<open>default\<close> is a constant
  of HOL). \<open>str_of_default\<close> is \<open>str(default)\<close> for an \<open>Optional[bool]\<close>.
\<close>

fun str_of_default :: "bool option \<Rightarrow> string" where
  "str_of_default None = ''None''"
| "str_of_default (Some True) = ''True''"
| "str_of_default (Some False) = ''False''"

definition bool_error_message :: "string \<Rightarrow> string \<Rightarrow> string" where
  "bool_error_message var_name env_variable =
     ''Environment variable '' @ var_name @ ''='' @ env_variable
       @ '' cannot be cast to bool due to ValueError.''"

text \<open>
  Only a \<open>ValueError\<close> of the cast is caught and wrapped; a \<open>KeyError\<close> of the string
  resolution propagates, and \<open>None\<close> would fail at \<open>.lower()\<close>.
\<close>

definition get_bool_env_variable ::
    "environ \<Rightarrow> string \<Rightarrow> bool option \<Rightarrow> error + bool" where
  "get_bool_env_variable env var_name dflt =
     and_then (get_env_variable env var_name (Some (str_of_default dflt)) False)
       (\<lambda>env_variable.
          case env_variable of
            None \<Rightarrow> Inl (AttributeError ''lower'')
          | Some s \<Rightarrow>
              (case cast_str_to_bool s of
                 Inr b \<Rightarrow> Inr b
               | Inl (ValueError m c) \<Rightarrow>
                   Inl (ValueError (bool_error_message var_name s)
                          (Some (ValueError m c)))
               | Inl e \<Rightarrow> Inl e))"

subsection \<open>The class EnvVariable\<close>

text \<open>
  \<open>pathlib.Path(x)\<close> wraps a string as a path value and raises a \<open>TypeError\<close> on
  \<open>None\<close>. It reads nothing but its argument. The lexical normalisation that pathlib
  applies to the text of a path is not part of this module and is not modelled: a path
  is the string it was built from.
\<close>

datatype path = Path string

definition pathlib_Path :: "string option \<Rightarrow> error + path" where
  "pathlib_Path x =
     (case x of
        None \<Rightarrow> Inl (TypeError ''expected str, bytes or os.PathLike object, not NoneType'')
      | Some s \<Rightarrow> Inr (Path s))"

text \<open>
  The attributes of the class, in the order of the class body. The four attributes whose
  Python names start with an underscore carry the prefix \<open>priv\<close>. An attribute read
  by \<open>_get_env_variable\<close> holds what that function returned, which is a string or
  \<open>None\<close>.
\<close>

record env_variable =
  STATSNZ_API_KEY :: "string option"
  LINZ_API_KEY :: "string option"
  MFE_API_KEY :: "string option"
  NIWA_API_KEY :: "string option"
  DEBUG_TRACEBACK :: bool
  TEST_DATABASE_INTEGRATION :: bool
  DATA_DIR :: path
  DATA_DIR_MODEL_OUTPUT :: path
  DATA_DIR_GEOSERVER :: path
  FLOOD_MODEL_DIR :: path
  POSTGRES_HOST :: "string option"
  POSTGRES_PORT :: "string option"
  POSTGRES_DB :: "string option"
  POSTGRES_USER :: "string option"
  POSTGRES_PASSWORD :: "string option"
  MESSAGE_BROKER_HOST :: "string option"
  GEOSERVER_HOST :: "string option"
  GEOSERVER_PORT :: "string option"
  GEOSERVER_INTERNAL_HOST :: "string option"
  GEOSERVER_INTERNAL_PORT :: "string option"
  GEOSERVER_ADMIN_NAME :: "string option"
  GEOSERVER_ADMIN_PASSWORD :: "string option"
  priv_LIDAR_DIR :: "string option"
  priv_DEM_DIR :: "string option"
  priv_LAND_FILE :: "string option"
  priv_INSTRUCTIONS_FILE :: "string option"

text \<open>
  The class body runs its assignments in order; the first exception ends it. A bound
  variable \<open>v_X\<close> is the class attribute \<open>X\<close> once assigned.
\<close>

definition EnvVariable :: "environ \<Rightarrow> error + env_variable" where
  "EnvVariable env =
     and_then (get_env_variable env ''STATSNZ_API_KEY'' None False) (\<lambda>v_STATSNZ_API_KEY.
     and_then (get_env_variable env ''LINZ_API_KEY'' None False) (\<lambda>v_LINZ_API_KEY.
     and_then (get_env_variable env ''MFE_API_KEY'' None False) (\<lambda>v_MFE_API_KEY.
     and_then (get_env_variable env ''NIWA_API_KEY'' None False) (\<lambda>v_NIWA_API_KEY.
     and_then (get_bool_env_variable env ''DEBUG_TRACEBACK'' (Some False)) (\<lambda>v_DEBUG_TRACEBACK.
     and_then (get_bool_env_variable env ''TEST_DATABASE_INTEGRATION'' (Some True))
       (\<lambda>v_TEST_DATABASE_INTEGRATION.
     and_then (and_then (get_env_variable env ''DATA_DIR'' None False) pathlib_Path)
       (\<lambda>v_DATA_DIR.
     and_then (and_then (get_env_variable env ''DATA_DIR_MODEL_OUTPUT'' None False) pathlib_Path)
       (\<lambda>v_DATA_DIR_MODEL_OUTPUT.
     and_then (and_then (get_env_variable env ''DATA_DIR_GEOSERVER'' None False) pathlib_Path)
       (\<lambda>v_DATA_DIR_GEOSERVER.
     and_then (and_then (get_env_variable env ''FLOOD_MODEL_DIR'' None False) pathlib_Path)
       (\<lambda>v_FLOOD_MODEL_DIR.
     and_then (get_env_variable env ''POSTGRES_HOST'' (Some ''localhost'') False) (\<lambda>v_POSTGRES_HOST.
     and_then (get_env_variable env ''POSTGRES_PORT'' (Some ''5431'') False) (\<lambda>v_POSTGRES_PORT.
     and_then (get_env_variable env ''POSTGRES_DB'' (Some ''db'') False) (\<lambda>v_POSTGRES_DB.
     and_then (get_env_variable env ''POSTGRES_USER'' (Some ''postgres'') False) (\<lambda>v_POSTGRES_USER.
     and_then (get_env_variable env ''POSTGRES_PASSWORD'' None False) (\<lambda>v_POSTGRES_PASSWORD.
     and_then (get_env_variable env ''MESSAGE_BROKER_HOST'' (Some ''localhost'') False)
       (\<lambda>v_MESSAGE_BROKER_HOST.
     and_then (get_env_variable env ''GEOSERVER_HOST'' (Some ''http://localhost'') False)
       (\<lambda>v_GEOSERVER_HOST.
     and_then (get_env_variable env ''GEOSERVER_PORT'' (Some ''8088'') False) (\<lambda>v_GEOSERVER_PORT.
     and_then (get_env_variable env ''GEOSERVER_INTERNAL_HOST'' v_GEOSERVER_HOST False)
       (\<lambda>v_GEOSERVER_INTERNAL_HOST.
     and_then (get_env_variable env ''GEOSERVER_INTERNAL_PORT'' v_GEOSERVER_PORT False)
       (\<lambda>v_GEOSERVER_INTERNAL_PORT.
     and_then (get_env_variable env ''GEOSERVER_ADMIN_NAME'' (Some ''admin'') False)
       (\<lambda>v_GEOSERVER_ADMIN_NAME.
     and_then (get_env_variable env ''GEOSERVER_ADMIN_PASSWORD'' (Some ''geoserver'') False)
       (\<lambda>v_GEOSERVER_ADMIN_PASSWORD.
     and_then (get_env_variable env ''LIDAR_DIR'' None False) (\<lambda>v_LIDAR_DIR.
     and_then (get_env_variable env ''DEM_DIR'' None False) (\<lambda>v_DEM_DIR.
     and_then (get_env_variable env ''LAND_FILE'' None True) (\<lambda>v_LAND_FILE.
     and_then (get_env_variable env ''INSTRUCTIONS_FILE'' None False) (\<lambda>v_INSTRUCTIONS_FILE.
     Inr \<lparr> STATSNZ_API_KEY = v_STATSNZ_API_KEY,
           LINZ_API_KEY = v_LINZ_API_KEY,
           MFE_API_KEY = v_MFE_API_KEY,
           NIWA_API_KEY = v_NIWA_API_KEY,
           DEBUG_TRACEBACK = v_DEBUG_TRACEBACK,
           TEST_DATABASE_INTEGRATION = v_TEST_DATABASE_INTEGRATION,
           DATA_DIR = v_DATA_DIR,
           DATA_DIR_MODEL_OUTPUT = v_DATA_DIR_MODEL_OUTPUT,
           DATA_DIR_GEOSERVER = v_DATA_DIR_GEOSERVER,
           FLOOD_MODEL_DIR = v_FLOOD_MODEL_DIR,
           POSTGRES_HOST = v_POSTGRES_HOST,
           POSTGRES_PORT = v_POSTGRES_PORT,
           POSTGRES_DB = v_POSTGRES_DB,
           POSTGRES_USER = v_POSTGRES_USER,
           POSTGRES_PASSWORD = v_POSTGRES_PASSWORD,
           MESSAGE_BROKER_HOST = v_MESSAGE_BROKER_HOST,
           GEOSERVER_HOST = v_GEOSERVER_HOST,
           GEOSERVER_PORT = v_GEOSERVER_PORT,
           GEOSERVER_INTERNAL_HOST = v_GEOSERVER_INTERNAL_HOST,
           GEOSERVER_INTERNAL_PORT = v_GEOSERVER_INTERNAL_PORT,
           GEOSERVER_ADMIN_NAME = v_GEOSERVER_ADMIN_NAME,
           GEOSERVER_ADMIN_PASSWORD = v_GEOSERVER_ADMIN_PASSWORD,
           priv_LIDAR_DIR = v_LIDAR_DIR,
           priv_DEM_DIR = v_DEM_DIR,
           priv_LAND_FILE = v_LAND_FILE,
           priv_INSTRUCTIONS_FILE = v_INSTRUCTIONS_FILE \<rparr>
     ))))))))))))))))))))))))))"

subsection \<open>Loading the environment files\<close>





subsection \<open>Example environments\<close>

text \<open>
  An environment in which every required variable is set, \<open>DEBUG_TRACEBACK\<close> is
  \<open>1\<close>, the tile server's public host is given and everything else is left to the
  defaults, and the attributes that the class body computes from it.
\<close>

definition example_environ :: environ where
  "example_environ = map_of
     [(''STATSNZ_API_KEY'', ''s-key''), (''LINZ_API_KEY'', ''l-key''),
      (''MFE_API_KEY'', ''m-key''), (''NIWA_API_KEY'', ''n-key''),
      (''DEBUG_TRACEBACK'', ''1''),
      (''DATA_DIR'', ''/data''), (''DATA_DIR_MODEL_OUTPUT'', ''/data/out''),
      (''DATA_DIR_GEOSERVER'', ''/data/geoserver''), (''FLOOD_MODEL_DIR'', ''/bg_flood''),
      (''POSTGRES_PASSWORD'', ''secret''), (''GEOSERVER_HOST'', ''http://geoserver''),
      (''LIDAR_DIR'', ''/lidar''), (''DEM_DIR'', ''/dem''),
      (''INSTRUCTIONS_FILE'', ''instructions.json'')]"

definition example_config :: env_variable where
  "example_config =
     \<lparr> STATSNZ_API_KEY = Some ''s-key'', LINZ_API_KEY = Some ''l-key'',
       MFE_API_KEY = Some ''m-key'', NIWA_API_KEY = Some ''n-key'',
       DEBUG_TRACEBACK = True, TEST_DATABASE_INTEGRATION = True,
       DATA_DIR = Path ''/data'', DATA_DIR_MODEL_OUTPUT = Path ''/data/out'',
       DATA_DIR_GEOSERVER = Path ''/data/geoserver'', FLOOD_MODEL_DIR = Path ''/bg_flood'',
       POSTGRES_HOST = Some ''localhost'', POSTGRES_PORT = Some ''5431'',
       POSTGRES_DB = Some ''db'', POSTGRES_USER = Some ''postgres'',
       POSTGRES_PASSWORD = Some ''secret'', MESSAGE_BROKER_HOST = Some ''localhost'',
       GEOSERVER_HOST = Some ''http://geoserver'', GEOSERVER_PORT = Some ''8088'',
       GEOSERVER_INTERNAL_HOST = Some ''http://geoserver'',
       GEOSERVER_INTERNAL_PORT = Some ''8088'',
       GEOSERVER_ADMIN_NAME = Some ''admin'', GEOSERVER_ADMIN_PASSWORD = Some ''geoserver'',
       priv_LIDAR_DIR = Some ''/lidar'', priv_DEM_DIR = Some ''/dem'',
       priv_LAND_FILE = None, priv_INSTRUCTIONS_FILE = Some ''instructions.json'' \<rparr>"

section \<open>Properties\<close>

subsection \<open>Auxiliary facts\<close>

lemma and_then_Inl: "and_then (Inl e) f = Inl e"
  by (simp add: and_then_def)

lemma and_then_Inr: "and_then (Inr x) f = f x"
  by (simp add: and_then_def)

lemma and_then_Inr_iff: "and_then m f = Inr r \<longleftrightarrow> (\<exists>x. m = Inr x \<and> f x = Inr r)"
  by (cases m) (simp_all add: and_then_def)

lemma get_env_variable_Inr_iff:
  "get_env_variable env v d ae = Inr r \<longleftrightarrow>
     (r = (if d \<noteq> None \<and> (env v = None \<or> env v = Some []) then d else env v)
      \<and> (ae \<or> (r \<noteq> None \<and> r \<noteq> Some [])))"
  by (auto simp: get_env_variable_def getenv_def Let_def)

lemma get_env_variable_Inl_iff:
  "get_env_variable env v d ae = Inl e \<longleftrightarrow>
     (e = KeyError (missing_message v) \<and> \<not> ae
      \<and> (env v = None \<or> env v = Some [])
      \<and> (d = None \<or> d = Some []))"
  by (auto simp: get_env_variable_def getenv_def Let_def)

lemmas cast_defs =
  cast_str_to_bool_def lower_def lower_char_def truth_values_def false_values_def

lemmas eval_defs =
  EnvVariable_def get_env_variable_def get_bool_env_variable_def getenv_def
  and_then_def pathlib_Path_def cast_defs

lemma str_of_default_nonempty: "str_of_default d \<noteq> []"
  by (cases d rule: str_of_default.cases) simp_all

lemma get_bool_env_variable_eq:
  "get_bool_env_variable env v d =
     (let s = (case env v of None \<Rightarrow> str_of_default d
                | Some x \<Rightarrow> if x = [] then str_of_default d else x)
      in case cast_str_to_bool s of
           Inr b \<Rightarrow> Inr b
         | Inl e \<Rightarrow> Inl (ValueError (bool_error_message v s) (Some e)))"
  using str_of_default_nonempty [of d]
  by (auto simp: get_bool_env_variable_def get_env_variable_def getenv_def and_then_def
      cast_str_to_bool_def Let_def split: option.splits)

text \<open>What a class body that ran to its end says about each attribute.\<close>

lemma EnvVariable_Inr_strings:
  assumes "EnvVariable env = Inr cfg"
  shows "get_env_variable env ''STATSNZ_API_KEY'' None False = Inr (STATSNZ_API_KEY cfg)"
    and "get_env_variable env ''POSTGRES_PORT'' (Some ''5431'') False = Inr (POSTGRES_PORT cfg)"
    and "get_env_variable env ''GEOSERVER_HOST'' (Some ''http://localhost'') False
           = Inr (GEOSERVER_HOST cfg)"
    and "get_env_variable env ''GEOSERVER_PORT'' (Some ''8088'') False = Inr (GEOSERVER_PORT cfg)"
    and "get_env_variable env ''GEOSERVER_INTERNAL_HOST'' (GEOSERVER_HOST cfg) False
           = Inr (GEOSERVER_INTERNAL_HOST cfg)"
    and "get_env_variable env ''GEOSERVER_INTERNAL_PORT'' (GEOSERVER_PORT cfg) False
           = Inr (GEOSERVER_INTERNAL_PORT cfg)"
    and "get_env_variable env ''LAND_FILE'' None True = Inr (priv_LAND_FILE cfg)"
  using assms unfolding EnvVariable_def and_then_Inr_iff by auto

lemma EnvVariable_Inr_bools:
  assumes "EnvVariable env = Inr cfg"
  shows "get_bool_env_variable env ''DEBUG_TRACEBACK'' (Some False) = Inr (DEBUG_TRACEBACK cfg)"
    and "get_bool_env_variable env ''TEST_DATABASE_INTEGRATION'' (Some True)
           = Inr (TEST_DATABASE_INTEGRATION cfg)"
  using assms unfolding EnvVariable_def and_then_Inr_iff by auto



lemma EnvVariable_example: "EnvVariable example_environ = Inr example_config"
  by (simp add: eval_defs example_environ_def example_config_def)

lemma EnvVariable_example_no_debug:
  "EnvVariable (example_environ(''DEBUG_TRACEBACK'' := None)) =
     Inr (example_config\<lparr>DEBUG_TRACEBACK := False\<rparr>)"
  by (simp add: eval_defs example_environ_def example_config_def)

lemma EnvVariable_example_no_data_dir:
  "EnvVariable (example_environ(''DATA_DIR'' := None)) =
     Inl (KeyError ''Environment variable DATA_DIR not set, and allow_empty is False'')"
  by (simp add: eval_defs example_environ_def missing_message_def)

subsection \<open>Boolean coercion\<close>

text \<open>
  Which strings lowercase to one of the literals: the listed spellings and no others.
\<close>

lemma lower_char_true_iff:
  "lower_char c = CHR ''t'' \<longleftrightarrow> c \<in> {CHR ''t'', CHR ''T''}"
  "lower_char c = CHR ''r'' \<longleftrightarrow> c \<in> {CHR ''r'', CHR ''R''}"
  "lower_char c = CHR ''u'' \<longleftrightarrow> c \<in> {CHR ''u'', CHR ''U''}"
  "lower_char c = CHR ''e'' \<longleftrightarrow> c \<in> {CHR ''e'', CHR ''E''}"
  by (auto simp: lower_char_def split: if_splits)

lemma lower_char_false_iff:
  "lower_char c = CHR ''f'' \<longleftrightarrow> c \<in> {CHR ''f'', CHR ''F''}"
  "lower_char c = CHR ''a'' \<longleftrightarrow> c \<in> {CHR ''a'', CHR ''A''}"
  "lower_char c = CHR ''l'' \<longleftrightarrow> c \<in> {CHR ''l'', CHR ''L''}"
  "lower_char c = CHR ''s'' \<longleftrightarrow> c \<in> {CHR ''s'', CHR ''S''}"
  by (auto simp: lower_char_def split: if_splits)

lemma lower_char_digit_iff:
  "lower_char c = CHR ''1'' \<longleftrightarrow> c = CHR ''1''"
  "lower_char c = CHR ''0'' \<longleftrightarrow> c = CHR ''0''"
  by (auto simp: lower_char_def split: if_splits)

lemma map_eq_one: "map f s = [w] \<longleftrightarrow> (\<exists>a. s = [a] \<and> f a = w)"
  by (simp add: map_eq_Cons_conv)

lemma map_eq_four:
  "map f s = [w, x, y, z] \<longleftrightarrow>
     (\<exists>a b c d. s = [a, b, c, d] \<and> f a = w \<and> f b = x \<and> f c = y \<and> f d = z)"
  by (simp add: map_eq_Cons_conv) blast

lemma map_eq_five:
  "map f s = [v, w, x, y, z] \<longleftrightarrow>
     (\<exists>a b c d e. s = [a, b, c, d, e]
        \<and> f a = v \<and> f b = w \<and> f c = x \<and> f d = y \<and> f e = z)"
  by (simp add: map_eq_Cons_conv) blast

lemma lower_eq_true_iff:
  "lower s = ''true'' \<longleftrightarrow>
     (\<exists>a b c d. s = [a, b, c, d] \<and> a \<in> {CHR ''t'', CHR ''T''} \<and> b \<in> {CHR ''r'', CHR ''R''}
        \<and> c \<in> {CHR ''u'', CHR ''U''} \<and> d \<in> {CHR ''e'', CHR ''E''})"
  unfolding lower_def map_eq_four lower_char_true_iff by (rule refl)

lemma lower_eq_false_iff:
  "lower s = ''false'' \<longleftrightarrow>
     (\<exists>a b c d e. s = [a, b, c, d, e] \<and> a \<in> {CHR ''f'', CHR ''F''}
        \<and> b \<in> {CHR ''a'', CHR ''A''} \<and> c \<in> {CHR ''l'', CHR ''L''}
        \<and> d \<in> {CHR ''s'', CHR ''S''} \<and> e \<in> {CHR ''e'', CHR ''E''})"
  unfolding lower_def map_eq_five lower_char_false_iff lower_char_true_iff by (rule refl)

lemma lower_eq_single_iff:
  "lower s = ''t'' \<longleftrightarrow> s = ''t'' \<or> s = ''T''"
  "lower s = ''f'' \<longleftrightarrow> s = ''f'' \<or> s = ''F''"
  "lower s = ''1'' \<longleftrightarrow> s = ''1''"
  "lower s = ''0'' \<longleftrightarrow> s = ''0''"
  unfolding lower_def map_eq_one lower_char_true_iff lower_char_false_iff lower_char_digit_iff
  by auto

text \<open>
  Claim C1. For every string \<open>s\<close>, \<open>cast_str_to_bool\<close> returns true exactly when the
  lowercase of \<open>s\<close> is one of \<open>true\<close>, \<open>t\<close>, \<open>1\<close>, returns false exactly when it is
  one of \<open>false\<close>, \<open>f\<close>, \<open>0\<close>, and raises a \<open>ValueError\<close> for every other string
  and for no string of the two sets. The spellings \<open>true\<close>, \<open>True\<close>, \<open>TRUE\<close>,
  \<open>t\<close>, \<open>T\<close>, \<open>1\<close> give true, their counterparts give false, and \<open>yes\<close>, \<open>2\<close>
  and the empty string raise.
\<close>

theorem cast_str_to_bool_literal_sets:
  "(cast_str_to_bool s = Inr True \<longleftrightarrow> lower s \<in> {''true'', ''t'', ''1''})
   \<and> (cast_str_to_bool s = Inr False \<longleftrightarrow> lower s \<in> {''false'', ''f'', ''0''})
   \<and> (cast_str_to_bool s = Inl (ValueError (cast_error_message s) None)
        \<longleftrightarrow> lower s \<notin> {''true'', ''t'', ''1'', ''false'', ''f'', ''0''})
   \<and> ((\<exists>e. cast_str_to_bool s = Inl e)
        \<longleftrightarrow> lower s \<notin> {''true'', ''t'', ''1'', ''false'', ''f'', ''0''})
   \<and> list_all (\<lambda>x. cast_str_to_bool x = Inr True)
        [''true'', ''True'', ''TRUE'', ''t'', ''T'', ''1'']
   \<and> list_all (\<lambda>x. cast_str_to_bool x = Inr False)
        [''false'', ''False'', ''FALSE'', ''f'', ''F'', ''0'']
   \<and> list_all (\<lambda>x. cast_str_to_bool x = Inl (ValueError (cast_error_message x) None))
        [''yes'', ''2'', '''']"
proof -
  have general:
    "(cast_str_to_bool s = Inr True \<longleftrightarrow> lower s \<in> {''true'', ''t'', ''1''})
     \<and> (cast_str_to_bool s = Inr False \<longleftrightarrow> lower s \<in> {''false'', ''f'', ''0''})
     \<and> (cast_str_to_bool s = Inl (ValueError (cast_error_message s) None)
          \<longleftrightarrow> lower s \<notin> {''true'', ''t'', ''1'', ''false'', ''f'', ''0''})
     \<and> ((\<exists>e. cast_str_to_bool s = Inl e)
          \<longleftrightarrow> lower s \<notin> {''true'', ''t'', ''1'', ''false'', ''f'', ''0''})"
    by (auto simp: cast_str_to_bool_def truth_values_def false_values_def)
  have yes: "list_all (\<lambda>x. cast_str_to_bool x = Inr True)
        [''true'', ''True'', ''TRUE'', ''t'', ''T'', ''1'']"
    by (simp add: cast_defs)
  have no: "list_all (\<lambda>x. cast_str_to_bool x = Inr False)
        [''false'', ''False'', ''FALSE'', ''f'', ''F'', ''0'']"
    by (simp add: cast_defs)
  have bad: "list_all (\<lambda>x. cast_str_to_bool x = Inl (ValueError (cast_error_message x) None))
        [''yes'', ''2'', '''']"
    by (simp add: cast_defs)
  from general yes no bad show ?thesis by simp
qed

theorem cast_str_to_bool_literal_sets_witness:
  "cast_str_to_bool ''TrUe'' = Inr True
   \<and> cast_str_to_bool ''F'' = Inr False
   \<and> cast_str_to_bool ''yes'' = Inl (ValueError (cast_error_message ''yes'') None)"
proof -
  have l: "lower ''TrUe'' = ''true''" "lower ''F'' = ''f''" "lower ''yes'' = ''yes''"
    by (simp_all add: lower_def lower_char_def)
  show ?thesis
    using cast_str_to_bool_literal_sets [of "''TrUe''"]
          cast_str_to_bool_literal_sets [of "''F''"]
          cast_str_to_bool_literal_sets [of "''yes''"]
    by (simp add: l)
qed

subsection \<open>String resolution\<close>

text \<open>
  Claim C2. For every variable name, if the variable is absent or is the empty string, no
  default is given and \<open>allow_empty\<close> is false, \<open>_get_env_variable\<close> raises a
  \<open>KeyError\<close> whose message contains that name. In particular, with
  \<open>STATSNZ_API_KEY\<close> unset or empty the class body fails with the error that names
  \<open>STATSNZ_API_KEY\<close>.
\<close>

theorem get_env_variable_missing:
  "(env var_name = None \<or> env var_name = Some '''' \<longrightarrow>
      get_env_variable env var_name None False =
        Inl (KeyError (''Environment variable '' @ var_name
                       @ '' not set, and allow_empty is False''))
      \<and> sublist var_name (''Environment variable '' @ var_name
                           @ '' not set, and allow_empty is False''))
   \<and> (env ''STATSNZ_API_KEY'' = None \<or> env ''STATSNZ_API_KEY'' = Some '''' \<longrightarrow>
      EnvVariable env =
        Inl (KeyError ''Environment variable STATSNZ_API_KEY not set, and allow_empty is False''))"
proof -
  have names: "sublist var_name (''Environment variable '' @ var_name
                           @ '' not set, and allow_empty is False'')"
    by (rule sublist_appendI)
  have raises: "get_env_variable env v None False =
        Inl (KeyError (''Environment variable '' @ v @ '' not set, and allow_empty is False''))"
    if "env v = None \<or> env v = Some ''''" for v
    using that by (auto simp: get_env_variable_def getenv_def missing_message_def)
  have startup: "EnvVariable env =
        Inl (KeyError ''Environment variable STATSNZ_API_KEY not set, and allow_empty is False'')"
    if "env ''STATSNZ_API_KEY'' = None \<or> env ''STATSNZ_API_KEY'' = Some ''''"
    unfolding EnvVariable_def raises [OF that] and_then_Inl by simp
  from names raises startup show ?thesis by blast
qed

theorem get_env_variable_missing_witness:
  "get_env_variable [''LINZ_API_KEY'' \<mapsto> ''l-key''] ''STATSNZ_API_KEY'' None False =
        Inl (KeyError ''Environment variable STATSNZ_API_KEY not set, and allow_empty is False'')
   \<and> EnvVariable [''LINZ_API_KEY'' \<mapsto> ''l-key''] =
        Inl (KeyError ''Environment variable STATSNZ_API_KEY not set, and allow_empty is False'')
   \<and> get_env_variable [''POSTGRES_PASSWORD'' \<mapsto> ''''] ''POSTGRES_PASSWORD'' None False =
        Inl (KeyError ''Environment variable POSTGRES_PASSWORD not set, and allow_empty is False'')"
  using get_env_variable_missing [of "[''LINZ_API_KEY'' \<mapsto> ''l-key'']" "''STATSNZ_API_KEY''"]
        get_env_variable_missing [of "[''POSTGRES_PASSWORD'' \<mapsto> '''']" "''POSTGRES_PASSWORD''"]
  by simp

text \<open>
  Claim C3. When the environment value is absent or empty and a default is given, a
  non-empty default is returned as it is, whatever \<open>allow_empty\<close> is; an explicit default
  of the empty string is substituted and returned when \<open>allow_empty\<close> is true (with
  no default the same call returns \<open>None\<close>). When the environment value is a non-empty
  string, that value is returned, whatever the default and \<open>allow_empty\<close> are.
\<close>

theorem get_env_variable_default:
  "((env var_name = None \<or> env var_name = Some '''') \<and> d \<noteq> '''' \<longrightarrow>
      get_env_variable env var_name (Some d) allow_empty = Inr (Some d))
   \<and> (env var_name = None \<or> env var_name = Some '''' \<longrightarrow>
      get_env_variable env var_name (Some '''') True = Inr (Some ''''))
   \<and> (env var_name = None \<longrightarrow>
      get_env_variable env var_name None True = Inr None)
   \<and> (env var_name = Some s \<and> s \<noteq> '''' \<longrightarrow>
      get_env_variable env var_name dflt allow_empty = Inr (Some s))"
  by (auto simp: get_env_variable_def getenv_def)

theorem get_env_variable_default_witness:
  "get_env_variable Map.empty ''POSTGRES_HOST'' (Some ''localhost'') False = Inr (Some ''localhost'')
   \<and> get_env_variable Map.empty ''POSTGRES_HOST'' (Some '''') True = Inr (Some '''')
   \<and> get_env_variable Map.empty ''POSTGRES_HOST'' None True = Inr None
   \<and> get_env_variable [''POSTGRES_HOST'' \<mapsto> ''db.internal''] ''POSTGRES_HOST''
        (Some ''localhost'') False = Inr (Some ''db.internal'')"
  using get_env_variable_default
          [of Map.empty "''POSTGRES_HOST''" "''localhost''" False "''x''" None]
        get_env_variable_default
          [of "[''POSTGRES_HOST'' \<mapsto> ''db.internal'']" "''POSTGRES_HOST''" "''localhost''"
              False "''db.internal''" "Some ''localhost''"]
  by simp

subsection \<open>Boolean resolution\<close>

text \<open>
  Claim C4. For every variable name, \<open>_get_bool_env_variable\<close> first resolves the
  variable as a string with the stringified boolean default, which always succeeds and
  gives the raw value: the default's text when the variable is absent or empty, the
  variable's value otherwise. It then coerces the raw value with the literal sets. When
  the coercion fails it raises a \<open>ValueError\<close> whose message contains the variable
  name and the raw value and whose cause is the error of the coercion. That error is not
  the \<open>KeyError\<close> of a missing variable, which boolean resolution never raises.
\<close>

theorem get_bool_env_variable_resolution:
  "\<exists>raw.
     get_env_variable env var_name (Some (str_of_default dflt)) False = Inr (Some raw)
     \<and> (env var_name = None \<or> env var_name = Some '''' \<longrightarrow> raw = str_of_default dflt)
     \<and> (\<forall>x. env var_name = Some x \<and> x \<noteq> '''' \<longrightarrow> raw = x)
     \<and> (\<forall>b. cast_str_to_bool raw = Inr b \<longrightarrow>
            get_bool_env_variable env var_name dflt = Inr b)
     \<and> (\<forall>e. cast_str_to_bool raw = Inl e \<longrightarrow>
            get_bool_env_variable env var_name dflt =
              Inl (ValueError (''Environment variable '' @ var_name @ ''='' @ raw
                               @ '' cannot be cast to bool due to ValueError.'') (Some e)))
     \<and> sublist var_name (''Environment variable '' @ var_name @ ''='' @ raw
                               @ '' cannot be cast to bool due to ValueError.'')
     \<and> sublist raw (''Environment variable '' @ var_name @ ''='' @ raw
                               @ '' cannot be cast to bool due to ValueError.'')
     \<and> (\<forall>m. get_bool_env_variable env var_name dflt \<noteq> Inl (KeyError m))"
proof -
  define raw where "raw = (case env var_name of None \<Rightarrow> str_of_default dflt
      | Some x \<Rightarrow> if x = [] then str_of_default dflt else x)"
  let ?msg = "''Environment variable '' @ var_name @ ''='' @ raw
                @ '' cannot be cast to bool due to ValueError.''"
  have ne: "str_of_default dflt \<noteq> []"
    by (rule str_of_default_nonempty)
  have eq: "get_bool_env_variable env var_name dflt =
     (case cast_str_to_bool raw of Inr b \<Rightarrow> Inr b
      | Inl e \<Rightarrow> Inl (ValueError ?msg (Some e)))"
    unfolding get_bool_env_variable_eq raw_def Let_def bool_error_message_def by (rule refl)
  have a: "get_env_variable env var_name (Some (str_of_default dflt)) False = Inr (Some raw)"
    using ne by (auto simp: get_env_variable_def getenv_def raw_def split: option.splits)
  have r1: "env var_name = None \<or> env var_name = Some '''' \<longrightarrow> raw = str_of_default dflt"
    by (auto simp: raw_def)
  have r2: "\<forall>x. env var_name = Some x \<and> x \<noteq> '''' \<longrightarrow> raw = x"
    by (auto simp: raw_def)
  have s1: "sublist var_name ?msg" by (rule sublist_appendI)
  have "?msg = (''Environment variable '' @ var_name @ ''='') @ raw
                @ '' cannot be cast to bool due to ValueError.''" by simp
  then have s2: "sublist raw ?msg" by (metis sublist_appendI)
  have ok: "\<forall>b. cast_str_to_bool raw = Inr b \<longrightarrow>
            get_bool_env_variable env var_name dflt = Inr b"
    unfolding eq by simp
  have bad: "\<forall>e. cast_str_to_bool raw = Inl e \<longrightarrow>
            get_bool_env_variable env var_name dflt = Inl (ValueError ?msg (Some e))"
    unfolding eq by simp
  have k: "\<forall>m. get_bool_env_variable env var_name dflt \<noteq> Inl (KeyError m)"
    unfolding eq by (simp split: sum.splits)
  from a r1 r2 ok bad s1 s2 k show ?thesis by blast
qed

theorem get_bool_env_variable_resolution_witness:
  "get_bool_env_variable [''DEBUG_TRACEBACK'' \<mapsto> ''yes''] ''DEBUG_TRACEBACK'' (Some False) =
     Inl (ValueError ''Environment variable DEBUG_TRACEBACK=yes cannot be cast to bool due to ValueError.''
            (Some (ValueError (cast_error_message ''yes'') None)))
   \<and> get_bool_env_variable [''DEBUG_TRACEBACK'' \<mapsto> ''F''] ''DEBUG_TRACEBACK'' (Some True) = Inr False
   \<and> get_bool_env_variable Map.empty ''DEBUG_TRACEBACK'' (Some True) = Inr True"
proof -
  have c1: "cast_str_to_bool ''yes'' = Inl (ValueError (cast_error_message ''yes'') None)"
    by (simp add: cast_defs)
  have c2: "cast_str_to_bool ''F'' = Inr False"
    by (simp add: cast_defs)
  have c3: "cast_str_to_bool ''True'' = Inr True"
    by (simp add: cast_defs)
  show ?thesis
    using get_bool_env_variable_resolution
            [of "[''DEBUG_TRACEBACK'' \<mapsto> ''yes'']" "''DEBUG_TRACEBACK''" "Some False"]
          get_bool_env_variable_resolution
            [of "[''DEBUG_TRACEBACK'' \<mapsto> ''F'']" "''DEBUG_TRACEBACK''" "Some True"]
          get_bool_env_variable_resolution
            [of "Map.empty" "''DEBUG_TRACEBACK''" "Some True"]
          c1 c2 c3
    by auto
qed

subsection \<open>The attributes of the class\<close>



subsection \<open>Environment files\<close>




text \<open>
  Claim C7. With \<open>POSTGRES_PORT\<close> unset its resolution returns the string \<open>5431\<close>;
  with \<open>DEBUG_TRACEBACK\<close> set to \<open>1\<close> its resolution returns true, and with
  \<open>DEBUG_TRACEBACK\<close> unset it returns the default false. The attributes of a class
  body that ran to its end hold these values.
\<close>

theorem example_constants:
  "(env ''POSTGRES_PORT'' = None \<longrightarrow>
      get_env_variable env ''POSTGRES_PORT'' (Some ''5431'') False = Inr (Some ''5431'')
      \<and> (EnvVariable env = Inr cfg \<longrightarrow> POSTGRES_PORT cfg = Some ''5431''))
   \<and> (env ''DEBUG_TRACEBACK'' = Some ''1'' \<longrightarrow>
      get_bool_env_variable env ''DEBUG_TRACEBACK'' (Some False) = Inr True
      \<and> (EnvVariable env = Inr cfg \<longrightarrow> DEBUG_TRACEBACK cfg = True))
   \<and> (env ''DEBUG_TRACEBACK'' = None \<longrightarrow>
      get_bool_env_variable env ''DEBUG_TRACEBACK'' (Some False) = Inr False
      \<and> (EnvVariable env = Inr cfg \<longrightarrow> DEBUG_TRACEBACK cfg = False))"
proof -
  have c1: "cast_str_to_bool ''1'' = Inr True" and c2: "cast_str_to_bool ''False'' = Inr False"
    by (simp_all add: cast_defs)
  have port: "get_env_variable env ''POSTGRES_PORT'' (Some ''5431'') False = Inr (Some ''5431'')"
    if "env ''POSTGRES_PORT'' = None"
    using that by (simp add: get_env_variable_def getenv_def)
  have dbg1: "get_bool_env_variable env ''DEBUG_TRACEBACK'' (Some False) = Inr True"
    if "env ''DEBUG_TRACEBACK'' = Some ''1''"
    using that by (simp add: get_bool_env_variable_eq c1)
  have dbg0: "get_bool_env_variable env ''DEBUG_TRACEBACK'' (Some False) = Inr False"
    if "env ''DEBUG_TRACEBACK'' = None"
    using that by (simp add: get_bool_env_variable_eq c2)
  have cls: "POSTGRES_PORT cfg = Some ''5431''"
    if "EnvVariable env = Inr cfg" "env ''POSTGRES_PORT'' = None"
    using EnvVariable_Inr_strings(2) [OF that(1)] port [OF that(2)] by simp
  have cls1: "DEBUG_TRACEBACK cfg = True"
    if "EnvVariable env = Inr cfg" "env ''DEBUG_TRACEBACK'' = Some ''1''"
    using EnvVariable_Inr_bools(1) [OF that(1)] dbg1 [OF that(2)] by simp
  have cls0: "DEBUG_TRACEBACK cfg = False"
    if "EnvVariable env = Inr cfg" "env ''DEBUG_TRACEBACK'' = None"
    using EnvVariable_Inr_bools(1) [OF that(1)] dbg0 [OF that(2)] by simp
  from port dbg1 dbg0 cls cls1 cls0 show ?thesis by blast
qed

theorem example_constants_witness:
  "example_environ ''POSTGRES_PORT'' = None
   \<and> example_environ ''DEBUG_TRACEBACK'' = Some ''1''
   \<and> EnvVariable example_environ = Inr example_config
   \<and> POSTGRES_PORT example_config = Some ''5431''
   \<and> DEBUG_TRACEBACK example_config = True
   \<and> (example_environ(''DEBUG_TRACEBACK'' := None)) ''DEBUG_TRACEBACK'' = None
   \<and> EnvVariable (example_environ(''DEBUG_TRACEBACK'' := None))
        = Inr (example_config\<lparr>DEBUG_TRACEBACK := False\<rparr>)
   \<and> DEBUG_TRACEBACK (example_config\<lparr>DEBUG_TRACEBACK := False\<rparr>) = False"
proof -
  have e: "example_environ ''POSTGRES_PORT'' = None"
    "example_environ ''DEBUG_TRACEBACK'' = Some ''1''"
    by (simp_all add: example_environ_def)
  show ?thesis
    using example_constants [of example_environ example_config]
          example_constants [of "example_environ(''DEBUG_TRACEBACK'' := None)"
                                "example_config\<lparr>DEBUG_TRACEBACK := False\<rparr>"]
          EnvVariable_example EnvVariable_example_no_debug e
    by simp
qed



subsection \<open>Boolean resolution with the default None\<close>

text \<open>
  Claim C9. For every variable name, \<open>_get_bool_env_variable\<close> with the default
  \<open>None\<close>, called while the variable is unset or empty, does not raise the
  \<open>KeyError\<close> of a missing variable: the default becomes the string \<open>None\<close>,
  which string resolution returns and which fails the coercion, so the call raises the
  \<open>ValueError\<close> that reports the raw value \<open>None\<close>.
\<close>

theorem get_bool_env_variable_default_None:
  "env var_name = None \<or> env var_name = Some '''' \<Longrightarrow>
     get_bool_env_variable env var_name None =
       Inl (ValueError (''Environment variable '' @ var_name
                        @ ''=None cannot be cast to bool due to ValueError.'')
              (Some (ValueError (cast_error_message ''None'') None)))
     \<and> get_env_variable env var_name (Some (str_of_default None)) False = Inr (Some ''None'')
     \<and> (\<forall>m. get_bool_env_variable env var_name None \<noteq> Inl (KeyError m))"
proof -
  assume h: "env var_name = None \<or> env var_name = Some ''''"
  have c: "cast_str_to_bool ''None'' = Inl (ValueError (cast_error_message ''None'') None)"
    by (simp add: cast_defs)
  from h have a: "get_env_variable env var_name (Some (str_of_default None)) False = Inr (Some ''None'')"
    by (auto simp: get_env_variable_def getenv_def)
  have b: "get_bool_env_variable env var_name None =
       Inl (ValueError (''Environment variable '' @ var_name
                        @ ''=None cannot be cast to bool due to ValueError.'')
              (Some (ValueError (cast_error_message ''None'') None)))"
    unfolding get_bool_env_variable_def a and_then_Inr
    by (simp add: c bool_error_message_def)
  show ?thesis using a b by simp
qed

theorem get_bool_env_variable_default_None_witness:
  "get_bool_env_variable Map.empty ''TEST_DATABASE_INTEGRATION'' None =
       Inl (ValueError ''Environment variable TEST_DATABASE_INTEGRATION=None cannot be cast to bool due to ValueError.''
              (Some (ValueError (cast_error_message ''None'') None)))"
  using get_bool_env_variable_default_None [of Map.empty "''TEST_DATABASE_INTEGRATION''"]
  by simp

subsection \<open>A variable that may be empty\<close>

text \<open>
  Claim C10. For every variable name, \<open>_get_env_variable\<close> with \<open>allow_empty\<close>
  true and no default returns \<open>None\<close>, not a string, when the variable is unset. In
  particular the attribute \<open>_LAND_FILE\<close> is \<open>None\<close>, not the empty string, when
  \<open>LAND_FILE\<close> is unset.
\<close>

theorem get_env_variable_returns_None:
  "(env var_name = None \<longrightarrow> get_env_variable env var_name None True = Inr None)
   \<and> (EnvVariable env = Inr cfg \<and> env ''LAND_FILE'' = None \<longrightarrow>
        priv_LAND_FILE cfg = None \<and> priv_LAND_FILE cfg \<noteq> Some '''')"
proof -
  have a: "env var_name = None \<longrightarrow> get_env_variable env var_name None True = Inr None"
    by (simp add: get_env_variable_def getenv_def)
  have b: "EnvVariable env = Inr cfg \<and> env ''LAND_FILE'' = None \<longrightarrow> priv_LAND_FILE cfg = None"
  proof
    assume h: "EnvVariable env = Inr cfg \<and> env ''LAND_FILE'' = None"
    from h have "get_env_variable env ''LAND_FILE'' None True = Inr (priv_LAND_FILE cfg)"
      by (simp add: EnvVariable_Inr_strings(7))
    with h show "priv_LAND_FILE cfg = None"
      by (simp add: get_env_variable_Inr_iff)
  qed
  from a b show ?thesis by simp
qed

theorem get_env_variable_returns_None_witness:
  "example_environ ''LAND_FILE'' = None
   \<and> get_env_variable example_environ ''LAND_FILE'' None True = Inr None
   \<and> EnvVariable example_environ = Inr example_config
   \<and> priv_LAND_FILE example_config = None"
proof -
  have e: "example_environ ''LAND_FILE'' = None"
    by (simp add: example_environ_def)
  show ?thesis
    using get_env_variable_returns_None [of example_environ "''LAND_FILE''" example_config]
          EnvVariable_example e
    by simp
qed

end
